theory Spec2Isabelle
  imports Main
begin

section \<open>Python values, exceptions and text\<close>

text \<open>
  The pipeline of \<^verbatim>\<open>first.py\<close> fetches a page, strips it to text, asks a completion
  service for a JSON list of firms, and appends the list to an SQLite table. The
  values it handles are the ones \<^verbatim>\<open>json.loads\<close> builds. A Python float is only ever
  passed through, so its type is left abstract. A dict is an association list read with
  \<open>map_of\<close>.
\<close>

typedecl pyfloat

instantiation pyfloat :: equal
begin

definition equal_pyfloat :: "pyfloat \<Rightarrow> pyfloat \<Rightarrow> bool" where
  "equal_pyfloat x y = (x = y)"

instance
  by standard (simp add: equal_pyfloat_def)

end

datatype pyval =
    PyNone
  | PyBool bool
  | PyInt int
  | PyFloat pyfloat
  | PyStr string
  | PyList "pyval list"
  | PyDict "(string \<times> pyval) list"

text \<open>
  Every \<^verbatim>\<open>raise\<close> of the program and every exception of a library call it makes is a
  value. \<open>Exception msg\<close> is the program's own \<^verbatim>\<open>raise Exception(msg)\<close>; the others are
  raised by \<^verbatim>\<open>requests\<close>, the completion client, \<^verbatim>\<open>json\<close>, the interpreter and
  \<^verbatim>\<open>sqlite3\<close>.
\<close>

datatype pyexn =
    Exception string
  | TransportError
  | ServiceError
  | JSONDecodeError
  | TypeError
  | AttributeError
  | OperationalError
  | InterfaceError
  | OverflowError

text \<open>Decimal text of a number, as \<^verbatim>\<open>str\<close> and an f-string give it.\<close>

fun str_nat :: "nat \<Rightarrow> string" where
  "str_nat n =
     (if n < 10 then [''0123456789'' ! n]
      else str_nat (n div 10) @ [''0123456789'' ! (n mod 10)])"

declare str_nat.simps [simp del]

definition str_int :: "int \<Rightarrow> string" where
  "str_int i = (if i < 0 then CHR ''-'' # str_nat (nat (- i)) else str_nat (nat i))"

definition newline :: string where
  "newline = [CHR 0x0A]"

text \<open>\<^verbatim>\<open>sep.join(parts)\<close>.\<close>

fun join :: "string \<Rightarrow> string list \<Rightarrow> string" where
  "join sep [] = []"
| "join sep [x] = x"
| "join sep (x # y # ys) = x @ sep @ join sep (y # ys)"

section \<open>The world outside the program\<close>

text \<open>
  What is stored is what SQLite keeps in a column declared \<^verbatim>\<open>TEXT\<close>: NULL or text (a
  number bound to such a column is stored as its text). \<open>FloatText f\<close> is the cell SQLite
  makes of the float \<open>f\<close>.
\<close>

datatype cell = Null | Text string | FloatText pyfloat

record row =
  rid :: nat
  name :: cell
  location :: cell
  website :: cell
  focus :: cell
  last_updated :: cell

text \<open>
  The table \<^verbatim>\<open>vc_firms\<close>: its rows in rowid order (the order a scan of the table
  visits them), and \<open>seq\<close>, the largest rowid the table has ever held, which
  \<^verbatim>\<open>AUTOINCREMENT\<close> keeps. The database file holds this one table or none.
\<close>

record table =
  rows :: "row list"
  seq :: nat

type_synonym database = "table option"

record response =
  status_code :: int
  resp_text :: string

text \<open>Standard output: a line of text, or a row printed as a tuple.\<close>

datatype printed = Line string | RowLine row

text \<open>
  The world the program runs in. \<open>net\<close> is what one GET of a URL yields; \<open>sent\<close> logs
  the requests made, each with its headers. \<open>chat\<close> is the completion service called
  with the program's fixed settings (model \<^verbatim>\<open>gpt-4\<close>, temperature 0.0, at most 1500
  tokens): the content of the first choice for a list of role and content pairs.
  \<open>clock k\<close> is the text \<^verbatim>\<open>datetime.utcnow().isoformat()\<close> gives at the \<open>k\<close>-th
  reading of the clock, and \<open>reads\<close> counts the readings made. \<open>disk\<close> is the committed
  content of the database file.
\<close>

record world =
  net :: "string \<Rightarrow> pyexn + response"
  sent :: "(string \<times> (string \<times> string) list) list"
  chat :: "(string \<times> string) list \<Rightarrow> pyexn + string"
  clock :: "nat \<Rightarrow> string"
  reads :: nat
  disk :: database
  stdout :: "printed list"

definition print_line :: "string \<Rightarrow> world \<Rightarrow> world" where
  "print_line s w = w\<lparr>stdout := stdout w @ [Line s]\<rparr>"

definition utcnow_isoformat :: "world \<Rightarrow> string \<times> world" where
  "utcnow_isoformat w = (clock w (reads w), w\<lparr>reads := Suc (reads w)\<rparr>)"

section \<open>Data ingestion: fetching and parsing\<close>

text \<open>
  \<^verbatim>\<open>fetch_web_page(url)\<close>: one GET with a browser-like header; any status other than
  200 raises an \<^verbatim>\<open>Exception\<close> whose message holds the URL and the status code.
\<close>

definition fetch_web_page :: "string \<Rightarrow> world \<Rightarrow> (pyexn + string) \<times> world" where
  "fetch_web_page url w =
     (let headers = [(''User-Agent'', ''Mozilla/5.0'')];
          w1 = w\<lparr>sent := sent w @ [(url, headers)]\<rparr>
      in case net w url of
           Inl e \<Rightarrow> (Inl e, w1)
         | Inr response \<Rightarrow>
             if status_code response \<noteq> 200
             then (Inl (Exception (''Error fetching '' @ url @ '': '' @ str_int (status_code response))), w1)
             else (Inr (resp_text response), w1))"

text \<open>
  The document tree BeautifulSoup builds: tags with their children, and strings. A
  \<open>NavigableString\<close> is a string of that very class, the text \<^verbatim>\<open>get_text\<close> collects; a
  \<open>SpecialString\<close> is a string of a subclass that \<^verbatim>\<open>get_text\<close> leaves out: a comment, a
  declaration and, in recent versions of the library, the content of a script or style
  element.
\<close>

datatype node = NavigableString string | SpecialString string | Tag string "node list"

text \<open>
  \<^verbatim>\<open>for script in soup(names): script.decompose()\<close>: every tag with one of the names,
  at any depth, is removed from the tree with all it contains.
\<close>

fun decompose_all :: "string list \<Rightarrow> node list \<Rightarrow> node list" where
  "decompose_all names [] = []"
| "decompose_all names (NavigableString s # ns) = NavigableString s # decompose_all names ns"
| "decompose_all names (SpecialString s # ns) = SpecialString s # decompose_all names ns"
| "decompose_all names (Tag t cs # ns) =
     (if t \<in> set names then decompose_all names ns
      else Tag t (decompose_all names cs) # decompose_all names ns)"

text \<open>The strings \<^verbatim>\<open>get_text\<close> collects, in document order.\<close>

fun all_strings :: "node list \<Rightarrow> string list" where
  "all_strings [] = []"
| "all_strings (NavigableString s # ns) = s # all_strings ns"
| "all_strings (SpecialString s # ns) = all_strings ns"
| "all_strings (Tag t cs # ns) = all_strings cs @ all_strings ns"

definition get_text :: "string \<Rightarrow> node list \<Rightarrow> string" where
  "get_text separator soup = join separator (all_strings soup)"

text \<open>
  \<^verbatim>\<open>parse_html_to_text(html_content)\<close>. The parser is the library's
  (\<^verbatim>\<open>BeautifulSoup(html_content, "html.parser")\<close>) and is a parameter here.
\<close>

definition parse_html_to_text :: "(string \<Rightarrow> node list) \<Rightarrow> string \<Rightarrow> string" where
  "parse_html_to_text html_parser html_content =
     (let soup = html_parser html_content;
          soup = decompose_all [''script'', ''style''] soup
      in get_text newline soup)"

section \<open>Data extraction\<close>

definition prompt_of :: "string \<Rightarrow> string" where
  \<open>prompt_of text =
     newline @
     ''You are an expert data extractor. Your task is to analyze the following text and extract a list of venture capital (VC) firms.'' @ newline @
     ''For each VC firm, provide:'' @ newline @
     ''- "Name": The name of the VC firm.'' @ newline @
     ''- "Location": The headquarters or main location.'' @ newline @
     ''- "Website": The website URL.'' @ newline @
     ''- "Focus": The sectors or industries the firm invests in (if available).'' @ newline @
     ''Output the result as a JSON array where each element is an object with these keys.'' @ newline @
     newline @
     ''Text to analyze:'' @ newline @
     text @ newline\<close>

text \<open>
  \<^verbatim>\<open>extract_vc_data(text)\<close>. The decoder \<^verbatim>\<open>json.loads\<close> is the library's and is a
  parameter: \<open>None\<close> is its \<^verbatim>\<open>JSONDecodeError\<close>. On that error the program prints two
  lines and raises the error again; otherwise it returns what the decoder built.
\<close>

definition extract_vc_data ::
  "(string \<Rightarrow> pyval option) \<Rightarrow> string \<Rightarrow> world \<Rightarrow> (pyexn + pyval) \<times> world" where
  "extract_vc_data json_loads text w =
     (let prompt = prompt_of text
      in case chat w [(''system'', ''You are an expert data extractor.''), (''user'', prompt)] of
           Inl e \<Rightarrow> (Inl e, w)
         | Inr reply \<Rightarrow>
             (case json_loads reply of
                None \<Rightarrow>
                  (Inl JSONDecodeError,
                   print_line reply (print_line ''Failed to parse GPT response. Raw reply:'' w))
              | Some vc_list \<Rightarrow> (Inr vc_list, w)))"

section \<open>Data storage\<close>

text \<open>
  \<^verbatim>\<open>initialize_database()\<close>: \<^verbatim>\<open>CREATE TABLE IF NOT EXISTS\<close>, committed.
\<close>

definition initialize_database :: "world \<Rightarrow> (pyexn + pyval) \<times> world" where
  "initialize_database w =
     (let conn = disk w;
          conn = (case conn of None \<Rightarrow> Some \<lparr>rows = [], seq = 0\<rparr> | Some t \<Rightarrow> Some t)
      in (Inr PyNone, w\<lparr>disk := conn\<rparr>))"

text \<open>\<^verbatim>\<open>record.get(key, default)\<close>: only a dict has the method.\<close>

fun py_get :: "pyval \<Rightarrow> string \<Rightarrow> pyval \<Rightarrow> pyexn + pyval" where
  "py_get (PyDict kvs) k d = Inr (case map_of kvs k of None \<Rightarrow> d | Some v \<Rightarrow> v)"
| "py_get _ k d = Inl AttributeError"

text \<open>
  The parameter tuple of the \<^verbatim>\<open>INSERT\<close>, built left to right.
\<close>

definition record_params :: "pyval \<Rightarrow> string \<Rightarrow> pyexn + pyval list" where
  "record_params record now =
     (case py_get record ''Name'' (PyStr '''') of Inl e \<Rightarrow> Inl e | Inr a \<Rightarrow>
      case py_get record ''Location'' (PyStr '''') of Inl e \<Rightarrow> Inl e | Inr b \<Rightarrow>
      case py_get record ''Website'' (PyStr '''') of Inl e \<Rightarrow> Inl e | Inr c \<Rightarrow>
      case py_get record ''Focus'' (PyStr '''') of Inl e \<Rightarrow> Inl e | Inr d \<Rightarrow>
      Inr [a, b, c, d, PyStr now])"

text \<open>
  How \<^verbatim>\<open>sqlite3\<close> binds a Python value to a \<^verbatim>\<open>TEXT\<close> column: \<^verbatim>\<open>None\<close> is NULL, a
  string is itself, a bool is an int, an int must fit 64 bits and is stored as its
  text; a list or a dict is not a supported type.
\<close>

fun sqlite_bind :: "pyval \<Rightarrow> pyexn + cell" where
  "sqlite_bind PyNone = Inr Null"
| "sqlite_bind (PyBool b) = Inr (Text (if b then ''1'' else ''0''))"
| "sqlite_bind (PyInt i) =
     (if - (2 ^ 63) \<le> i \<and> i < 2 ^ 63 then Inr (Text (str_int i)) else Inl OverflowError)"
| "sqlite_bind (PyFloat f) = Inr (FloatText f)"
| "sqlite_bind (PyStr s) = Inr (Text s)"
| "sqlite_bind (PyList xs) = Inl InterfaceError"
| "sqlite_bind (PyDict kvs) = Inl InterfaceError"

fun bind_params :: "pyval list \<Rightarrow> pyexn + cell list" where
  "bind_params [] = Inr []"
| "bind_params (v # vs) =
     (case sqlite_bind v of
        Inl e \<Rightarrow> Inl e
      | Inr c \<Rightarrow> (case bind_params vs of Inl e \<Rightarrow> Inl e | Inr cs \<Rightarrow> Inr (c # cs)))"

text \<open>The rowid \<^verbatim>\<open>AUTOINCREMENT\<close> gives: one more than any the table holds or has held.\<close>

definition next_rowid :: "table \<Rightarrow> nat" where
  "next_rowid t = Suc (fold max (map rid (rows t)) (seq t))"

text \<open>
  \<^verbatim>\<open>cursor.execute("INSERT INTO vc_firms (...) VALUES (?, ?, ?, ?, ?)", params)\<close> on a
  connection whose view of the database is \<open>conn\<close>: the statement needs the table, then
  binds its five parameters, then appends the row. The new view is the connection's own
  until it commits.
\<close>

definition execute_insert :: "pyval list \<Rightarrow> database \<Rightarrow> pyexn + database" where
  "execute_insert params conn =
     (case conn of
        None \<Rightarrow> Inl OperationalError
      | Some t \<Rightarrow>
          (case bind_params params of
             Inl e \<Rightarrow> Inl e
           | Inr cells \<Rightarrow>
               (case cells of
                  [a, b, c, d, u] \<Rightarrow>
                    Inr (Some (t\<lparr>rows := rows t @
                                 [\<lparr>rid = next_rowid t, name = a, location = b, website = c,
                                   focus = d, last_updated = u\<rparr>],
                               seq := next_rowid t\<rparr>))
                | _ \<Rightarrow> Inl InterfaceError)))"

text \<open>The body of the loop, and the loop: the first exception ends it.\<close>

definition insert_one :: "string \<Rightarrow> pyval \<Rightarrow> database \<Rightarrow> pyexn + database" where
  "insert_one now record conn =
     (case record_params record now of
        Inl e \<Rightarrow> Inl e
      | Inr params \<Rightarrow> execute_insert params conn)"

fun insert_loop :: "string \<Rightarrow> pyval list \<Rightarrow> database \<Rightarrow> pyexn + database" where
  "insert_loop now [] conn = Inr conn"
| "insert_loop now (record # records) conn =
     (case insert_one now record conn of
        Inl e \<Rightarrow> Inl e
      | Inr conn' \<Rightarrow> insert_loop now records conn')"

text \<open>
  What \<^verbatim>\<open>for record in vc_records\<close> iterates over: the items of a list, the keys of a
  dict, the characters of a string; anything else is not iterable.
\<close>

fun py_iter :: "pyval \<Rightarrow> pyexn + pyval list" where
  "py_iter (PyList xs) = Inr xs"
| "py_iter (PyDict kvs) = Inr (map (\<lambda>kv. PyStr (fst kv)) kvs)"
| "py_iter (PyStr s) = Inr (map (\<lambda>c. PyStr [c]) s)"
| "py_iter _ = Inl TypeError"

text \<open>
  \<^verbatim>\<open>insert_vc_records(vc_records)\<close>. The connection opens on the committed database,
  the clock is read once, the loop runs on the connection's view, and only
  \<^verbatim>\<open>conn.commit()\<close> writes that view to the file: an exception leaves the function before
  the commit, and the open transaction is rolled back with the connection. The function
  has no \<^verbatim>\<open>return\<close>: its value is \<^verbatim>\<open>None\<close>, and the count goes to standard output.
\<close>

definition insert_vc_records :: "pyval \<Rightarrow> world \<Rightarrow> (pyexn + pyval) \<times> world" where
  "insert_vc_records vc_records w =
     (let conn = disk w;
          (now, w1) = utcnow_isoformat w
      in case py_iter vc_records of
           Inl e \<Rightarrow> (Inl e, w1)
         | Inr records \<Rightarrow>
             (case insert_loop now records conn of
                Inl e \<Rightarrow> (Inl e, w1)
              | Inr conn' \<Rightarrow>
                  (Inr PyNone,
                   print_line (''Inserted '' @ str_nat (length records) @ '' records into the database.'')
                     (w1\<lparr>disk := conn'\<rparr>))))"

definition print_row :: "row \<Rightarrow> world \<Rightarrow> world" where
  "print_row r w = w\<lparr>stdout := stdout w @ [RowLine r]\<rparr>"

text \<open>
  \<^verbatim>\<open>query_all_vc_records()\<close>: the \<^verbatim>\<open>SELECT\<close> has no \<^verbatim>\<open>ORDER BY\<close> and reads the table in
  rowid order; the rows are printed one by one, and the function's value is \<^verbatim>\<open>None\<close>.
\<close>

definition query_all_vc_records :: "world \<Rightarrow> (pyexn + pyval) \<times> world" where
  "query_all_vc_records w =
     (case disk w of
        None \<Rightarrow> (Inl OperationalError, w)
      | Some t \<Rightarrow>
          (let fetched = rows t
           in (Inr PyNone, fold print_row fetched (print_line ''Current VC Records:'' w))))"

section \<open>A decoder for plain JSON texts\<close>

text \<open>
  The statements below hold for every decoder. To run them on a reply, \<open>loads_basic\<close>
  reads the JSON texts that have no escape in a string and no fraction or exponent in a
  number: optional whitespace, \<^verbatim>\<open>null\<close>, \<^verbatim>\<open>true\<close>, \<^verbatim>\<open>false\<close>, integers, strings, arrays,
  and objects, where a repeated key keeps its place and takes the last value. On these
  texts it builds what \<^verbatim>\<open>json.loads\<close> builds; every other text it rejects. The first
  argument of the three parsing functions bounds the calls still allowed.
\<close>

definition is_ws :: "char \<Rightarrow> bool" where
  "is_ws c = (c = CHR '' '' \<or> c = CHR 0x09 \<or> c = CHR 0x0A \<or> c = CHR 0x0D)"

definition skip_ws :: "string \<Rightarrow> string" where
  "skip_ws s = dropWhile is_ws s"

definition is_digit :: "char \<Rightarrow> bool" where
  "is_digit c = (c \<in> set ''0123456789'')"

definition digits_value :: "string \<Rightarrow> nat" where
  "digits_value ds = foldl (\<lambda>a c. 10 * a + (of_char c - 48)) 0 ds"

fun scan_string :: "string \<Rightarrow> (string \<times> string) option" where
  "scan_string [] = None"
| "scan_string (c # cs) =
     (if c = CHR 0x22 then Some ([], cs)
      else if c = CHR 0x5C \<or> (of_char c :: nat) < 32 then None
      else (case scan_string cs of None \<Rightarrow> None | Some (s, r) \<Rightarrow> Some (c # s, r)))"

fun strip_prefix :: "string \<Rightarrow> string \<Rightarrow> string option" where
  "strip_prefix [] s = Some s"
| "strip_prefix (p # ps) [] = None"
| "strip_prefix (p # ps) (c # cs) = (if p = c then strip_prefix ps cs else None)"

definition scan_digits :: "string \<Rightarrow> (nat \<times> string) option" where
  "scan_digits s =
     (let ds = takeWhile is_digit s; r = dropWhile is_digit s
      in if ds = [] \<or> (hd ds = CHR ''0'' \<and> length ds > 1) then None
         else if r \<noteq> [] \<and> hd r \<in> set ''.eE'' then None
         else Some (digits_value ds, r))"

definition scan_atom :: "string \<Rightarrow> (pyval \<times> string) option" where
  "scan_atom s =
     (case strip_prefix ''null'' s of Some r \<Rightarrow> Some (PyNone, r) | None \<Rightarrow>
      case strip_prefix ''true'' s of Some r \<Rightarrow> Some (PyBool True, r) | None \<Rightarrow>
      case strip_prefix ''false'' s of Some r \<Rightarrow> Some (PyBool False, r) | None \<Rightarrow>
      case strip_prefix ''-'' s of
        Some r \<Rightarrow> map_option (\<lambda>(n, r'). (PyInt (- int n), r')) (scan_digits r)
      | None \<Rightarrow> map_option (\<lambda>(n, r'). (PyInt (int n), r')) (scan_digits s))"

fun dict_set :: "(string \<times> pyval) list \<Rightarrow> string \<Rightarrow> pyval \<Rightarrow> (string \<times> pyval) list" where
  "dict_set [] k v = [(k, v)]"
| "dict_set ((k', v') # kvs) k v =
     (if k' = k then (k, v) # kvs else (k', v') # dict_set kvs k v)"

fun parse_value :: "nat \<Rightarrow> string \<Rightarrow> (pyval \<times> string) option"
  and parse_items :: "nat \<Rightarrow> pyval list \<Rightarrow> string \<Rightarrow> (pyval \<times> string) option"
  and parse_members ::
    "nat \<Rightarrow> (string \<times> pyval) list \<Rightarrow> string \<Rightarrow> (pyval \<times> string) option"
where
  "parse_value 0 s = None"
| "parse_value (Suc n) s =
     (case skip_ws s of
        [] \<Rightarrow> None
      | c # cs \<Rightarrow>
          if c = CHR ''['' then
            (case skip_ws cs of
               [] \<Rightarrow> None
             | d # ds \<Rightarrow> if d = CHR '']'' then Some (PyList [], ds) else parse_items n [] cs)
          else if c = CHR ''{'' then
            (case skip_ws cs of
               [] \<Rightarrow> None
             | d # ds \<Rightarrow> if d = CHR ''}'' then Some (PyDict [], ds) else parse_members n [] cs)
          else if c = CHR 0x22 then
            (case scan_string cs of None \<Rightarrow> None | Some (x, r) \<Rightarrow> Some (PyStr x, r))
          else scan_atom (c # cs))"
| "parse_items 0 acc s = None"
| "parse_items (Suc n) acc s =
     (case parse_value n s of
        None \<Rightarrow> None
      | Some (v, r) \<Rightarrow>
          (case skip_ws r of
             [] \<Rightarrow> None
           | d # ds \<Rightarrow>
               if d = CHR '','' then parse_items n (acc @ [v]) ds
               else if d = CHR '']'' then Some (PyList (acc @ [v]), ds)
               else None))"
| "parse_members 0 acc s = None"
| "parse_members (Suc n) acc s =
     (case skip_ws s of
        [] \<Rightarrow> None
      | q # qs \<Rightarrow>
          if q \<noteq> CHR 0x22 then None
          else
            (case scan_string qs of
               None \<Rightarrow> None
             | Some (k, r) \<Rightarrow>
                 (case skip_ws r of
                    [] \<Rightarrow> None
                  | c # cs \<Rightarrow>
                      if c \<noteq> CHR '':'' then None
                      else
                        (case parse_value n cs of
                           None \<Rightarrow> None
                         | Some (v, r2) \<Rightarrow>
                             (case skip_ws r2 of
                                [] \<Rightarrow> None
                              | d # ds \<Rightarrow>
                                  if d = CHR '','' then parse_members n (dict_set acc k v) ds
                                  else if d = CHR ''}'' then Some (PyDict (dict_set acc k v), ds)
                                  else None)))))"

definition loads_basic :: "string \<Rightarrow> pyval option" where
  "loads_basic s =
     (case parse_value (2 * length s + 2) s of
        None \<Rightarrow> None
      | Some (v, r) \<Rightarrow> if skip_ws r = [] then Some v else None)"

section \<open>The vocabulary of the properties\<close>

definition field_keys :: "string list" where
  "field_keys = [''Name'', ''Location'', ''Website'', ''Focus'']"

text \<open>
  A value of a type \<^verbatim>\<open>sqlite3\<close> binds, and a record the table takes: a dict whose
  values under the four keys, where present, are such values.
\<close>

fun bindable :: "pyval \<Rightarrow> bool" where
  "bindable (PyList xs) = False"
| "bindable (PyDict kvs) = False"
| "bindable (PyInt i) = (- (2 ^ 63) \<le> i \<and> i < 2 ^ 63)"
| "bindable v = True"

fun storable :: "pyval \<Rightarrow> bool" where
  "storable (PyDict kvs) =
     list_all (\<lambda>k. case map_of kvs k of None \<Rightarrow> True | Some v \<Rightarrow> bindable v) field_keys"
| "storable v = False"

fun is_dict :: "pyval \<Rightarrow> bool" where
  "is_dict (PyDict kvs) = True"
| "is_dict v = False"

text \<open>Python's \<^verbatim>\<open>key in record\<close> on a dict.\<close>

fun has_key :: "pyval \<Rightarrow> string \<Rightarrow> bool" where
  "has_key (PyDict kvs) k = (k \<in> fst ` set kvs)"
| "has_key v k = False"

text \<open>The value a dict gives for a key, or the empty string.\<close>

definition field_of :: "(string \<times> pyval) list \<Rightarrow> string \<Rightarrow> pyval" where
  "field_of kvs k = (case map_of kvs k of None \<Rightarrow> PyStr '''' | Some v \<Rightarrow> v)"

text \<open>
  A row holds a record: its four cells are what \<^verbatim>\<open>sqlite3\<close> binds for the record's four
  fields. A field that is a string is held as that string.
\<close>

fun holds :: "row \<Rightarrow> pyval \<Rightarrow> bool" where
  "holds r (PyDict kvs) =
     (sqlite_bind (field_of kvs ''Name'') = Inr (name r)
      \<and> sqlite_bind (field_of kvs ''Location'') = Inr (location r)
      \<and> sqlite_bind (field_of kvs ''Website'') = Inr (website r)
      \<and> sqlite_bind (field_of kvs ''Focus'') = Inr (focus r))"
| "holds r v = False"

text \<open>Two records that agree on the four keys, whatever else they hold.\<close>

fun same_fields :: "pyval \<Rightarrow> pyval \<Rightarrow> bool" where
  "same_fields (PyDict a) (PyDict b) = list_all (\<lambda>k. map_of a k = map_of b k) field_keys"
| "same_fields u v = False"

text \<open>
  A table as SQLite keeps it: rowids ascend along the rows, and none exceeds \<open>seq\<close>.
\<close>

definition table_ok :: "table \<Rightarrow> bool" where
  "table_ok t = (sorted_wrt (<) (map rid (rows t)) \<and> list_all (\<lambda>r. rid r \<le> seq t) (rows t))"

text \<open>Python's \<^verbatim>\<open>sub in s\<close> on strings.\<close>

fun starts_with :: "string \<Rightarrow> string \<Rightarrow> bool" where
  "starts_with s [] = True"
| "starts_with [] (p # ps) = False"
| "starts_with (c # cs) (p # ps) = (c = p \<and> starts_with cs ps)"

fun contains :: "string \<Rightarrow> string \<Rightarrow> bool" where
  "contains [] sub = (sub = [])"
| "contains (c # cs) sub = (starts_with (c # cs) sub \<or> contains cs sub)"

text \<open>
  The strings of a document that \<^verbatim>\<open>get_text\<close> would collect and that lie under no tag
  of the given names, in document order; every string of a tree, of either class; the
  content of the tags of the given names, that is every string under one of them; and
  the names of all tags of a tree.
\<close>

fun visible_strings :: "string list \<Rightarrow> node list \<Rightarrow> string list" where
  "visible_strings names [] = []"
| "visible_strings names (NavigableString s # ns) = s # visible_strings names ns"
| "visible_strings names (SpecialString s # ns) = visible_strings names ns"
| "visible_strings names (Tag t cs # ns) =
     (if t \<in> set names then [] else visible_strings names cs) @ visible_strings names ns"

fun every_string :: "node list \<Rightarrow> string list" where
  "every_string [] = []"
| "every_string (NavigableString s # ns) = s # every_string ns"
| "every_string (SpecialString s # ns) = s # every_string ns"
| "every_string (Tag t cs # ns) = every_string cs @ every_string ns"

fun hidden_strings :: "string list \<Rightarrow> node list \<Rightarrow> string list" where
  "hidden_strings names [] = []"
| "hidden_strings names (NavigableString s # ns) = hidden_strings names ns"
| "hidden_strings names (SpecialString s # ns) = hidden_strings names ns"
| "hidden_strings names (Tag t cs # ns) =
     (if t \<in> set names then every_string cs else hidden_strings names cs) @ hidden_strings names ns"

fun tag_names :: "node list \<Rightarrow> string list" where
  "tag_names [] = []"
| "tag_names (NavigableString s # ns) = tag_names ns"
| "tag_names (SpecialString s # ns) = tag_names ns"
| "tag_names (Tag t cs # ns) = t # tag_names cs @ tag_names ns"

section \<open>Sample worlds and inputs\<close>

text \<open>
  A world with no network, no completion service, an empty database file and nothing
  printed; the clock gives a fresh microsecond at each reading.
\<close>

definition world0 :: world where
  "world0 =
     \<lparr>net = (\<lambda>url. Inl TransportError), sent = [],
      chat = (\<lambda>msgs. Inl ServiceError),
      clock = (\<lambda>k. ''2024-05-01T12:00:00.'' @ str_nat (100000 + k)), reads = 0,
      disk = None, stdout = []\<rparr>"

text \<open>The same world with the table created, and with a service that answers \<open>reply\<close>.\<close>

definition world_ready :: world where
  "world_ready = world0\<lparr>disk := Some \<lparr>rows = [], seq = 0\<rparr>\<rparr>"

definition world_replying :: "string \<Rightarrow> world" where
  "world_replying reply = world0\<lparr>chat := (\<lambda>msgs. Inr reply)\<rparr>"

text \<open>A world whose table already holds one row, written at an earlier time.\<close>

definition old_row :: row where
  "old_row = \<lparr>rid = 1, name = Text ''Old Fund'', location = Text ''NYC'', website = Null,
               focus = Text '''', last_updated = Text ''2024-04-30T09:30:00.000001''\<rparr>"

definition world_stocked :: world where
  "world_stocked = world0\<lparr>disk := Some \<lparr>rows = [old_row], seq = 1\<rparr>\<rparr>"

text \<open>A site that answers every URL with the given status and body.\<close>

definition world_serving :: "int \<Rightarrow> string \<Rightarrow> world" where
  "world_serving code content =
     world0\<lparr>net := (\<lambda>url. Inr \<lparr>status_code = code, resp_text = content\<rparr>)\<rparr>"

text \<open>
  The page \<^verbatim>\<open><p>hi</p><script>hi</script>\<close> and its document tree, where the string of
  the script is of the class \<^verbatim>\<open>Script\<close>; \<open>parser_giving doc\<close> stands for the library's
  parser on a page whose tree is \<open>doc\<close>.
\<close>

definition sample_page :: string where
  "sample_page = ''<p>hi</p><script>hi</script>''"

definition sample_doc :: "node list" where
  "sample_doc = [Tag ''p'' [NavigableString ''hi''], Tag ''script'' [SpecialString ''hi'']]"

definition parser_giving :: "node list \<Rightarrow> string \<Rightarrow> node list" where
  "parser_giving doc html_content = doc"

definition acme :: pyval where
  "acme = PyDict [(''Name'', PyStr ''Acme Ventures''), (''Location'', PyStr ''SF''),
                  (''Website'', PyStr ''acme.vc''), (''Focus'', PyStr ''seed'')]"

definition birch :: pyval where
  "birch = PyDict [(''Name'', PyStr ''Birch Capital''), (''Founded'', PyInt 2009)]"

text \<open>A reply of the service with two firms, the second without three of the keys.\<close>

definition sample_reply :: string where
  \<open>sample_reply = ''[{"Name":"Acme Ventures","Location":"SF","Website":"acme.vc","Focus":"seed"}, {"Name":"Birch Capital","Founded":2009}]''\<close>

definition sample_text :: string where
  "sample_text = ''Acme Ventures, SF, acme.vc, seed. Birch Capital, since 2009.''"

text \<open>The rows these two firms make when inserted at the first reading of the clock.\<close>

definition acme_row :: "nat \<Rightarrow> row" where
  "acme_row i = \<lparr>rid = i, name = Text ''Acme Ventures'', location = Text ''SF'',
                 website = Text ''acme.vc'', focus = Text ''seed'',
                 last_updated = Text ''2024-05-01T12:00:00.100000''\<rparr>"

definition birch_row :: "nat \<Rightarrow> row" where
  "birch_row i = \<lparr>rid = i, name = Text ''Birch Capital'', location = Text '''',
                  website = Text '''', focus = Text '''',
                  last_updated = Text ''2024-05-01T12:00:00.100000''\<rparr>"

section \<open>Fetching\<close>

text \<open>
  C5. For every URL that the network answers, \<open>fetch_web_page\<close> returns the body of the
  response as it is when the status is exactly 200; for any other status it raises an
  exception whose message holds the URL and the status code. In both cases exactly one
  request has been sent, with the browser-like header, and nothing else in the world has
  changed: there is no retry.
\<close>

theorem fetch_web_page_status:
  assumes "net w url = Inr response"
  shows "(status_code response = 200 \<longrightarrow>
            fst (fetch_web_page url w) = Inr (resp_text response))
       \<and> (status_code response \<noteq> 200 \<longrightarrow>
            fst (fetch_web_page url w) =
              Inl (Exception (''Error fetching '' @ url @ '': '' @ str_int (status_code response))))
       \<and> snd (fetch_web_page url w) =
            w\<lparr>sent := sent w @ [(url, [(''User-Agent'', ''Mozilla/5.0'')])]\<rparr>"
  using assms by (simp add: fetch_web_page_def Let_def)

text \<open>A page that is gone (404) and a page that is served (200).\<close>

theorem fetch_web_page_status_witness:
  "fst (fetch_web_page ''http://vc.example/list'' (world_serving 404 ''gone'')) =
     Inl (Exception ''Error fetching http://vc.example/list: 404'')
   \<and> fst (fetch_web_page ''http://vc.example/list'' (world_serving 200 ''<p>hi</p>'')) =
       Inr ''<p>hi</p>''
   \<and> sent (snd (fetch_web_page ''http://vc.example/list'' (world_serving 404 ''gone''))) =
        [(''http://vc.example/list'', [(''User-Agent'', ''Mozilla/5.0'')])]"
proof -
  have n1: "net (world_serving 404 ''gone'') ''http://vc.example/list'' =
              Inr \<lparr>status_code = 404, resp_text = ''gone''\<rparr>"
    by (simp add: world_serving_def world0_def)
  have n2: "net (world_serving 200 ''<p>hi</p>'') ''http://vc.example/list'' =
              Inr \<lparr>status_code = 200, resp_text = ''<p>hi</p>''\<rparr>"
    by (simp add: world_serving_def world0_def)
  have s: "sent (world_serving 404 ''gone'') = []"
    by (simp add: world_serving_def world0_def)
  show ?thesis
    using fetch_web_page_status [OF n1] fetch_web_page_status [OF n2] s
    by (simp add: str_int_def str_nat.simps)
qed

section \<open>Normalizing markup to text\<close>

lemma all_strings_decompose_all:
  "all_strings (decompose_all names doc) = visible_strings names doc"
  by (induction names doc rule: decompose_all.induct) simp_all

lemma tag_names_decompose_all:
  "set (tag_names (decompose_all names doc)) \<inter> set names = {}"
  by (induction names doc rule: decompose_all.induct) auto

text \<open>
  C6, as amended. For every page, no \<^verbatim>\<open>script\<close> and no \<^verbatim>\<open>style\<close> tag is left in the tree
  that is serialized, and the text returned is the strings that lie under no such tag,
  in document order, joined by newlines. A string of a script is therefore in the output
  only where the same text also stands outside every script and style element.
\<close>

theorem parse_html_to_text_visible:
  "parse_html_to_text html_parser html_content =
     join newline (visible_strings [''script'', ''style''] (html_parser html_content))
   \<and> ''script'' \<notin> set (tag_names (decompose_all [''script'', ''style''] (html_parser html_content)))
   \<and> ''style'' \<notin> set (tag_names (decompose_all [''script'', ''style''] (html_parser html_content)))"
  using tag_names_decompose_all [of "[''script'', ''style'']" "html_parser html_content"]
  by (simp add: parse_html_to_text_def get_text_def all_strings_decompose_all)

theorem parse_html_to_text_visible_witness:
  "parse_html_to_text (parser_giving sample_doc) sample_page = ''hi''
   \<and> visible_strings [''script'', ''style''] sample_doc = [''hi'']
   \<and> hidden_strings [''script'', ''style''] sample_doc = [''hi'']"
  using parse_html_to_text_visible [of "parser_giving sample_doc" sample_page]
  by (simp add: parser_giving_def sample_doc_def)

text \<open>
  C6 as stated fails: on the page \<^verbatim>\<open><p>hi</p><script>hi</script>\<close> the script holds the
  text \<^verbatim>\<open>hi\<close>, and the output contains it, because the paragraph holds it too.
\<close>

theorem script_text_counterexample:
  "''hi'' \<in> set (hidden_strings [''script'', ''style''] (parser_giving sample_doc sample_page))
   \<and> contains (parse_html_to_text (parser_giving sample_doc) sample_page) ''hi''"
  by (simp add: parser_giving_def sample_doc_def parse_html_to_text_def get_text_def)

section \<open>Extracting records\<close>

lemma loads_basic_samples:
  "loads_basic ''42'' = Some (PyInt 42)"
  \<open>loads_basic ''{"Name": "Acme Ventures"}'' = Some (PyDict [(''Name'', PyStr ''Acme Ventures'')])\<close>
  \<open>loads_basic ''Sure! Here is the data: [{"Name":"Acme Ventures"}]'' = None\<close>
  "loads_basic sample_reply = Some (PyList [acme, birch])"
  by code_simp+

lemma chat_world_replying:
  "chat (world_replying reply) msgs = Inr reply"
  by (simp add: world_replying_def world0_def)

text \<open>
  C1, as amended. When the service answers, \<open>extract_vc_data\<close> fails exactly when the
  decoder rejects the reply, with the decoder's error and after printing the raw reply;
  every reply the decoder accepts is returned as decoded, whatever its shape, and the
  world is left as it was. No check that the value is an array of objects is made.
\<close>

theorem extract_vc_data_decodes:
  assumes "chat w [(''system'', ''You are an expert data extractor.''), (''user'', prompt_of text)] =
             Inr reply"
  shows "(\<forall>v. json_loads reply = Some v \<longrightarrow> extract_vc_data json_loads text w = (Inr v, w))
       \<and> (json_loads reply = None \<longrightarrow>
            extract_vc_data json_loads text w =
              (Inl JSONDecodeError,
               w\<lparr>stdout := stdout w @
                    [Line ''Failed to parse GPT response. Raw reply:'', Line reply]\<rparr>))"
  using assms by (simp add: extract_vc_data_def print_line_def)

text \<open>A reply that is a single object is returned; a reply with a preamble is refused.\<close>

theorem extract_vc_data_decodes_witness:
  \<open>extract_vc_data loads_basic sample_text (world_replying ''{"Name": "Acme Ventures"}'') =
     (Inr (PyDict [(''Name'', PyStr ''Acme Ventures'')]),
      world_replying ''{"Name": "Acme Ventures"}'')
   \<and> fst (extract_vc_data loads_basic sample_text
            (world_replying ''Sure! Here is the data: [{"Name":"Acme Ventures"}]'')) =
       Inl JSONDecodeError\<close>
proof -
  have accepted: \<open>extract_vc_data loads_basic sample_text
                    (world_replying ''{"Name": "Acme Ventures"}'') =
                  (Inr (PyDict [(''Name'', PyStr ''Acme Ventures'')]),
                   world_replying ''{"Name": "Acme Ventures"}'')\<close>
    using extract_vc_data_decodes [OF chat_world_replying, where json_loads = loads_basic]
      loads_basic_samples(2)
    by blast
  have refused: \<open>fst (extract_vc_data loads_basic sample_text
                    (world_replying ''Sure! Here is the data: [{"Name":"Acme Ventures"}]'')) =
                 Inl JSONDecodeError\<close>
    using extract_vc_data_decodes [OF chat_world_replying, where json_loads = loads_basic]
      loads_basic_samples(3)
    by fastforce
  from accepted refused show ?thesis
    by simp
qed

text \<open>
  C1 as stated fails: the reply \<^verbatim>\<open>42\<close> is JSON and no array, and it is returned.
\<close>

theorem extract_number_counterexample:
  "loads_basic ''42'' = Some (PyInt 42)
   \<and> fst (extract_vc_data loads_basic sample_text (world_replying ''42'')) = Inr (PyInt 42)"
  by (simp add: extract_vc_data_def chat_world_replying loads_basic_samples)

lemma record_params_dict:
  "record_params (PyDict kvs) now =
     Inr [field_of kvs ''Name'', field_of kvs ''Location'', field_of kvs ''Website'',
          field_of kvs ''Focus'', PyStr now]"
  by (simp add: record_params_def field_of_def)

lemma record_params_Inr:
  assumes "record_params r now = Inr ps"
  shows "\<exists>kvs. r = PyDict kvs"
  using assms by (cases r) (simp_all add: record_params_def)

text \<open>
  C2, as amended. When the reply decodes to an array of objects, \<open>extract_vc_data\<close>
  returns that array as decoded, one record for each element and in the same order; it
  adds no key. When the insertion reads one of these records, at any time, its
  parameters are the four fields Name, Location, Website and Focus, followed by the
  timestamp; a field is the value under the key, and the empty string when the key is
  absent.
\<close>

theorem extract_vc_data_array_of_objects:
  assumes "chat w [(''system'', ''You are an expert data extractor.''), (''user'', prompt_of text)] =
             Inr reply"
    and "json_loads reply = Some (PyList rs)"
    and "list_all is_dict rs"
  shows "extract_vc_data json_loads text w = (Inr (PyList rs), w)
       \<and> list_all (\<lambda>r. \<exists>kvs. r = PyDict kvs
                      \<and> (\<forall>now. record_params r now =
                                 Inr (map (field_of kvs) field_keys @ [PyStr now]))) rs
       \<and> (\<forall>kvs k. k \<notin> fst ` set kvs \<longrightarrow> field_of kvs k = PyStr '''')
       \<and> (\<forall>kvs k v. map_of kvs k = Some v \<longrightarrow> field_of kvs k = v)"
proof -
  have "extract_vc_data json_loads text w = (Inr (PyList rs), w)"
    using assms(1,2) by (simp add: extract_vc_data_def)
  moreover have "list_all (\<lambda>r. \<exists>kvs. r = PyDict kvs
                      \<and> (\<forall>now. record_params r now =
                                 Inr (map (field_of kvs) field_keys @ [PyStr now]))) rs"
    unfolding list_all_iff
  proof
    fix r assume "r \<in> set rs"
    with assms(3) have "is_dict r" by (simp add: list_all_iff)
    then obtain kvs where "r = PyDict kvs" by (cases r) simp_all
    then show "\<exists>kvs. r = PyDict kvs
                 \<and> (\<forall>now. record_params r now = Inr (map (field_of kvs) field_keys @ [PyStr now]))"
      by (simp add: record_params_dict field_keys_def)
  qed
  moreover have "\<forall>kvs k. k \<notin> fst ` set kvs \<longrightarrow> field_of kvs k = PyStr ''''"
    by (simp add: field_of_def map_of_eq_None_iff [THEN iffD2])
  moreover have "\<forall>kvs k v. map_of kvs k = Some v \<longrightarrow> field_of kvs k = v"
    by (simp add: field_of_def)
  ultimately show ?thesis by blast
qed

text \<open>Two firms are extracted; the second has only its name, and three empty fields.\<close>

theorem extract_vc_data_array_of_objects_witness:
  "extract_vc_data loads_basic sample_text (world_replying sample_reply) =
     (Inr (PyList [acme, birch]), world_replying sample_reply)
   \<and> record_params birch ''2024-05-01T12:00:00.100000'' =
       Inr [PyStr ''Birch Capital'', PyStr '''', PyStr '''', PyStr '''',
            PyStr ''2024-05-01T12:00:00.100000'']"
proof -
  have d: "list_all is_dict [acme, birch]"
    by (simp add: acme_def birch_def)
  from extract_vc_data_array_of_objects
         [of "world_replying sample_reply" sample_text sample_reply loads_basic "[acme, birch]",
          OF chat_world_replying loads_basic_samples(4) d]
  have "extract_vc_data loads_basic sample_text (world_replying sample_reply) =
          (Inr (PyList [acme, birch]), world_replying sample_reply)"
    and "\<exists>kvs. birch = PyDict kvs
           \<and> (\<forall>now. record_params birch now = Inr (map (field_of kvs) field_keys @ [PyStr now]))"
    by simp_all
  then show ?thesis
    by (auto simp: birch_def field_of_def field_keys_def)
qed

text \<open>
  C2 as stated fails: of the two records extracted from the sample reply, the second has
  no field Location; the empty string appears only when the insertion reads the record.
\<close>

theorem extract_missing_key_counterexample:
  "fst (extract_vc_data loads_basic sample_text (world_replying sample_reply)) =
     Inr (PyList [acme, birch])
   \<and> \<not> has_key birch ''Location''"
  by (simp add: extract_vc_data_def chat_world_replying loads_basic_samples birch_def)

section \<open>The record store\<close>

subsection \<open>Initialization\<close>

text \<open>
  C7. For every state of the store, \<open>initialize_database\<close> does not raise, a second call
  right after the first does not raise and leaves the world exactly as the first call
  left it, and a store whose table already exists is left unchanged, rows included.
\<close>

theorem initialize_database_idempotent:
  "fst (initialize_database w) = Inr PyNone
   \<and> initialize_database (snd (initialize_database w)) =
       (Inr PyNone, snd (initialize_database w))
   \<and> (disk w \<noteq> None \<longrightarrow> snd (initialize_database w) = w)"
  by (auto simp: initialize_database_def Let_def split: option.splits)

text \<open>A store with a row keeps it; an empty file gets the empty table, once.\<close>

theorem initialize_database_idempotent_witness:
  "initialize_database world_stocked = (Inr PyNone, world_stocked)
   \<and> disk (snd (initialize_database world0)) = Some \<lparr>rows = [], seq = 0\<rparr>
   \<and> disk (snd (initialize_database (snd (initialize_database world0)))) =
       Some \<lparr>rows = [], seq = 0\<rparr>"
proof -
  have d: "disk world_stocked \<noteq> None"
    by (simp add: world_stocked_def)
  have e: "disk (snd (initialize_database world0)) = Some \<lparr>rows = [], seq = 0\<rparr>"
    by (simp add: initialize_database_def world0_def)
  show ?thesis
    using initialize_database_idempotent [of world_stocked]
      initialize_database_idempotent [of world0] d e
    by (simp add: prod_eq_iff)
qed

subsection \<open>One insertion, and the loop\<close>

lemma bindable_bind: "bindable v \<Longrightarrow> \<exists>c. sqlite_bind v = Inr c"
  by (cases v) auto

lemma storable_field:
  assumes "storable (PyDict kvs)" and "k \<in> set field_keys"
  shows "\<exists>c. sqlite_bind (field_of kvs k) = Inr c"
proof (cases "map_of kvs k")
  case None
  then show ?thesis by (simp add: field_of_def)
next
  case (Some v)
  with assms have "bindable v"
    by (auto simp: list_all_iff)
  with Some show ?thesis
    by (simp add: field_of_def bindable_bind)
qed

lemma insert_one_Inr:
  assumes "insert_one now r conn = Inr conn'"
  shows "\<exists>kvs t a b c d.
           r = PyDict kvs \<and> conn = Some t
         \<and> sqlite_bind (field_of kvs ''Name'') = Inr a
         \<and> sqlite_bind (field_of kvs ''Location'') = Inr b
         \<and> sqlite_bind (field_of kvs ''Website'') = Inr c
         \<and> sqlite_bind (field_of kvs ''Focus'') = Inr d
         \<and> conn' = Some \<lparr>rows = rows t @ [\<lparr>rid = next_rowid t, name = a, location = b,
                                             website = c, focus = d, last_updated = Text now\<rparr>],
                           seq = next_rowid t\<rparr>"
proof -
  from assms obtain ps where ps: "record_params r now = Inr ps"
    by (auto simp: insert_one_def split: sum.splits)
  then obtain kvs where r: "r = PyDict kvs"
    using record_params_Inr by blast
  from assms r show ?thesis
    by (auto simp: insert_one_def record_params_dict execute_insert_def
             split: option.splits sum.splits)
qed

lemma insert_one_storable:
  assumes "storable r"
  shows "\<exists>conn'. insert_one now r (Some t) = Inr conn'"
proof -
  from assms obtain kvs where r: "r = PyDict kvs"
    by (cases r) simp_all
  have k: "\<And>k. k \<in> set field_keys \<Longrightarrow> \<exists>c. sqlite_bind (field_of kvs k) = Inr c"
    using assms r storable_field by blast
  obtain a where a: "sqlite_bind (field_of kvs ''Name'') = Inr a"
    using k [of "''Name''"] by (auto simp: field_keys_def)
  obtain b where b: "sqlite_bind (field_of kvs ''Location'') = Inr b"
    using k [of "''Location''"] by (auto simp: field_keys_def)
  obtain c where c: "sqlite_bind (field_of kvs ''Website'') = Inr c"
    using k [of "''Website''"] by (auto simp: field_keys_def)
  obtain d where d: "sqlite_bind (field_of kvs ''Focus'') = Inr d"
    using k [of "''Focus''"] by (auto simp: field_keys_def)
  show ?thesis
    by (simp add: r insert_one_def record_params_dict execute_insert_def a b c d)
qed

lemma fold_max_bounded:
  "list_all (\<lambda>x. x \<le> s) xs \<Longrightarrow> fold max xs s = (s::nat)"
  by (induction xs) (simp_all add: max_absorb2)

lemma next_rowid_ok: "table_ok t \<Longrightarrow> next_rowid t = Suc (seq t)"
  by (simp add: table_ok_def next_rowid_def fold_max_bounded list_all_iff)

lemma table_ok_append:
  assumes "table_ok t" and "rid r = Suc (seq t)"
  shows "table_ok \<lparr>rows = rows t @ [r], seq = Suc (seq t)\<rparr>"
  using assms
  by (auto simp: table_ok_def sorted_wrt_append list_all_iff le_imp_less_Suc le_SucI)

text \<open>What a loop that ends without an exception has appended.\<close>

lemma insert_loop_Inr:
  "insert_loop now rs (Some t) = Inr conn' \<Longrightarrow>
     \<exists>t' new. conn' = Some t' \<and> rows t' = rows t @ new
           \<and> list_all2 holds new rs
           \<and> list_all (\<lambda>r. last_updated r = Text now) new"
proof (induction rs arbitrary: t)
  case Nil
  then show ?case by auto
next
  case (Cons r rs)
  from Cons.prems obtain c1 where c1: "insert_one now r (Some t) = Inr c1"
    and rest: "insert_loop now rs c1 = Inr conn'"
    by (auto split: sum.splits)
  from insert_one_Inr [OF c1] obtain kvs a b c d where r: "r = PyDict kvs"
    and binds: "sqlite_bind (field_of kvs ''Name'') = Inr a"
      "sqlite_bind (field_of kvs ''Location'') = Inr b"
      "sqlite_bind (field_of kvs ''Website'') = Inr c"
      "sqlite_bind (field_of kvs ''Focus'') = Inr d"
    and c1_eq: "c1 = Some \<lparr>rows = rows t @ [\<lparr>rid = next_rowid t, name = a, location = b,
                                             website = c, focus = d, last_updated = Text now\<rparr>],
                           seq = next_rowid t\<rparr>"
    by auto
  define r1 where "r1 = \<lparr>rid = next_rowid t, name = a, location = b,
                          website = c, focus = d, last_updated = Text now\<rparr>"
  define t1 where "t1 = \<lparr>rows = rows t @ [r1], seq = next_rowid t\<rparr>"
  from rest c1_eq have "insert_loop now rs (Some t1) = Inr conn'"
    by (simp add: t1_def r1_def)
  from Cons.IH [OF this] obtain t' new where
    new: "conn' = Some t'" "rows t' = rows t1 @ new" "list_all2 holds new rs"
      "list_all (\<lambda>r. last_updated r = Text now) new"
    by blast
  have "rows t' = rows t @ (r1 # new)"
    using new(2) by (simp add: t1_def)
  moreover have "list_all2 holds (r1 # new) (r # rs)"
    using new(3) binds by (simp add: r r1_def)
  moreover have "list_all (\<lambda>r. last_updated r = Text now) (r1 # new)"
    using new(4) by (simp add: r1_def)
  ultimately show ?case using new(1) by blast
qed

text \<open>On a table as SQLite keeps it, the new rowids continue from \<open>seq\<close>.\<close>

lemma insert_loop_ids:
  "insert_loop now rs (Some t) = Inr conn' \<Longrightarrow> table_ok t \<Longrightarrow>
     \<exists>t'. conn' = Some t' \<and> table_ok t'
         \<and> map rid (rows t') = map rid (rows t) @ [Suc (seq t) ..< Suc (seq t) + length rs]"
proof (induction rs arbitrary: t)
  case Nil
  then show ?case by auto
next
  case (Cons r rs)
  from Cons.prems obtain c1 where c1: "insert_one now r (Some t) = Inr c1"
    and rest: "insert_loop now rs c1 = Inr conn'"
    by (auto split: sum.splits)
  from insert_one_Inr [OF c1] obtain a b c d where
    c1_eq: "c1 = Some \<lparr>rows = rows t @ [\<lparr>rid = next_rowid t, name = a, location = b,
                                          website = c, focus = d, last_updated = Text now\<rparr>],
                        seq = next_rowid t\<rparr>"
    by auto
  define r1 where "r1 = \<lparr>rid = Suc (seq t), name = a, location = b,
                          website = c, focus = d, last_updated = Text now\<rparr>"
  define t1 where "t1 = \<lparr>rows = rows t @ [r1], seq = Suc (seq t)\<rparr>"
  have c1_t1: "c1 = Some t1"
    using c1_eq next_rowid_ok [OF Cons.prems(2)] by (simp add: t1_def r1_def)
  have ok1: "table_ok t1"
    unfolding t1_def using Cons.prems(2) by (rule table_ok_append) (simp add: r1_def)
  from Cons.IH [OF rest [unfolded c1_t1] ok1] obtain t' where
    t': "conn' = Some t'" "table_ok t'"
      "map rid (rows t') = map rid (rows t1) @ [Suc (seq t1) ..< Suc (seq t1) + length rs]"
    by blast
  have upt: "[Suc (seq t) ..< Suc (seq t) + length (r # rs)] =
               Suc (seq t) # [Suc (Suc (seq t)) ..< Suc (Suc (seq t)) + length rs]"
    by (simp del: upt_Suc add: upt_conv_Cons)
  have "map rid (rows t') = map rid (rows t) @ [Suc (seq t) ..< Suc (seq t) + length (r # rs)]"
    unfolding upt using t'(3) by (simp add: t1_def r1_def)
  with t'(1,2) show ?case by blast
qed

lemma insert_loop_storable:
  "list_all storable rs \<Longrightarrow> \<exists>conn'. insert_loop now rs (Some t) = Inr conn'"
proof (induction rs arbitrary: t)
  case Nil
  then show ?case by simp
next
  case (Cons r rs)
  then have "storable r" and rs: "list_all storable rs" by simp_all
  from insert_one_storable [OF this(1)] obtain c1 where c1: "insert_one now r (Some t) = Inr c1"
    by blast
  from insert_one_Inr [OF c1] obtain t1 where "c1 = Some t1" by blast
  with c1 Cons.IH [OF rs, of t1] show ?case by simp
qed

lemma insert_vc_records_list:
  "insert_vc_records (PyList rs) w =
     (case insert_loop (clock w (reads w)) rs (disk w) of
        Inl e \<Rightarrow> (Inl e, w\<lparr>reads := Suc (reads w)\<rparr>)
      | Inr conn' \<Rightarrow>
          (Inr PyNone,
           w\<lparr>reads := Suc (reads w), disk := conn',
             stdout := stdout w @
               [Line (''Inserted '' @ str_nat (length rs) @ '' records into the database.'')]\<rparr>))"
  by (simp add: insert_vc_records_def utcnow_isoformat_def print_line_def split: sum.splits)

lemma fold_print_row:
  "fold print_row rs w = w\<lparr>stdout := stdout w @ map RowLine rs\<rparr>"
  by (induction rs arbitrary: w) (simp_all add: print_row_def)

text \<open>The table is as SQLite keeps it when created, and after every insertion.\<close>

lemma table_ok_initialize:
  "disk w = None \<Longrightarrow> \<exists>t. disk (snd (initialize_database w)) = Some t \<and> table_ok t"
  by (simp add: initialize_database_def table_ok_def)

lemma table_ok_insert:
  assumes "disk w = Some t" and "table_ok t"
    and "insert_vc_records (PyList rs) w = (Inr v, w')"
  shows "\<exists>t'. disk w' = Some t' \<and> table_ok t'"
proof -
  from assms(1,3) obtain conn' where
    loop: "insert_loop (clock w (reads w)) rs (Some t) = Inr conn'" and "disk w' = conn'"
    by (auto simp: insert_vc_records_list split: sum.splits)
  with insert_loop_ids [OF loop assms(2)] show ?thesis by auto
qed

subsection \<open>Sample runs\<close>

lemma str_nat_samples:
  "str_nat (Suc 0) = ''1''" "str_nat (Suc (Suc 0)) = ''2''" "str_nat 100000 = ''100000''"
  by (simp_all add: str_nat.simps)

lemmas run_defs =
  insert_vc_records_def utcnow_isoformat_def print_line_def print_row_def query_all_vc_records_def
  world_ready_def world_stocked_def world0_def acme_def birch_def
  insert_one_def record_params_def execute_insert_def next_rowid_def field_of_def
  str_nat_samples

lemma run_stocked:
  "insert_vc_records (PyList [acme, birch]) world_stocked =
     (Inr PyNone,
      world0\<lparr>reads := 1, disk := Some \<lparr>rows = [old_row, acme_row 2, birch_row 3], seq = 3\<rparr>,
             stdout := [Line ''Inserted 2 records into the database.'']\<rparr>)"
  by (simp add: run_defs acme_row_def birch_row_def old_row_def)

lemma run_broken:
  "insert_vc_records (PyList [acme, PyInt 5]) world_stocked =
     (Inl AttributeError, world_stocked\<lparr>reads := 1\<rparr>)"
  by (simp add: run_defs)

subsection \<open>Insertion\<close>

text \<open>
  C3, as amended. For every initialized store and every sequence of records the table
  takes, \<open>insert_vc_records\<close> ends without an exception, appends one row for each record
  (as many rows as the sequence is long), reads the clock once, and prints the length
  of the sequence in the line \<^verbatim>\<open>Inserted N records into the database.\<close>; the value it
  returns is \<^verbatim>\<open>None\<close>.
\<close>

theorem insert_vc_records_count:
  assumes "disk w = Some t" and "list_all storable rs"
  shows "\<exists>t' new. insert_vc_records (PyList rs) w =
           (Inr PyNone,
            w\<lparr>reads := Suc (reads w), disk := Some t',
              stdout := stdout w @
                [Line (''Inserted '' @ str_nat (length rs) @ '' records into the database.'')]\<rparr>)
         \<and> rows t' = rows t @ new \<and> length new = length rs"
proof -
  from insert_loop_storable [OF assms(2)] obtain conn' where
    loop: "insert_loop (clock w (reads w)) rs (Some t) = Inr conn'"
    by blast
  from insert_loop_Inr [OF loop] obtain t' new where
    "conn' = Some t'" "rows t' = rows t @ new" "list_all2 holds new rs"
    by blast
  then show ?thesis
    using loop assms(1) by (auto simp: insert_vc_records_list dest: list_all2_lengthD)
qed

text \<open>Two records after one old row: three rows, and the count 2 on standard output.\<close>

theorem insert_vc_records_count_witness:
  "fst (insert_vc_records (PyList [acme, birch]) world_stocked) = Inr PyNone
   \<and> stdout (snd (insert_vc_records (PyList [acme, birch]) world_stocked)) =
       [Line ''Inserted 2 records into the database.'']
   \<and> map_option (\<lambda>t. length (rows t)) (disk (snd (insert_vc_records (PyList [acme, birch]) world_stocked))) =
       Some 3"
proof -
  have d: "disk world_stocked = Some \<lparr>rows = [old_row], seq = 1\<rparr>"
    by (simp add: world_stocked_def)
  have s: "list_all storable [acme, birch]"
    by (simp add: acme_def birch_def field_keys_def)
  from insert_vc_records_count [OF d s] obtain t' new where
    run: "insert_vc_records (PyList [acme, birch]) world_stocked =
           (Inr PyNone,
            world_stocked\<lparr>reads := Suc (reads world_stocked), disk := Some t',
              stdout := stdout world_stocked @
                [Line (''Inserted '' @ str_nat (length [acme, birch]) @ '' records into the database.'')]\<rparr>)"
    and new: "rows t' = rows \<lparr>rows = [old_row], seq = 1\<rparr> @ new" "length new = length [acme, birch]"
    by blast
  have "stdout world_stocked = []"
    by (simp add: world_stocked_def world0_def)
  with run new show ?thesis
    by (simp add: str_nat_samples)
qed

text \<open>
  C3 as stated fails: after inserting one record the function has returned \<^verbatim>\<open>None\<close>, not
  the count 1, which is only printed.
\<close>

theorem insert_returns_none_counterexample:
  "fst (insert_vc_records (PyList [acme]) world_ready) = Inr PyNone
   \<and> fst (insert_vc_records (PyList [acme]) world_ready) \<noteq> Inr (PyInt 1)
   \<and> stdout (snd (insert_vc_records (PyList [acme]) world_ready)) =
       [Line ''Inserted 1 records into the database.'']"
  by (simp add: run_defs)

text \<open>
  C4. Every call of \<open>insert_vc_records\<close> on a batch reads the clock exactly once,
  whether it ends with an exception or not. When the call on an initialized store ends
  without one, every row it has appended, one for each element of the batch, carries
  that one reading in \<open>last_updated\<close>.
\<close>

theorem insert_vc_records_one_timestamp:
  assumes "disk w = Some t"
  shows "reads (snd (insert_vc_records (PyList rs) w)) = Suc (reads w)
       \<and> (\<forall>v w'. insert_vc_records (PyList rs) w = (Inr v, w') \<longrightarrow>
            (\<exists>t' new. disk w' = Some t' \<and> rows t' = rows t @ new \<and> length new = length rs
               \<and> list_all (\<lambda>r. last_updated r = Text (clock w (reads w))) new))"
proof -
  have "reads (snd (insert_vc_records (PyList rs) w)) = Suc (reads w)"
    by (simp add: insert_vc_records_list split: sum.splits)
  moreover have "\<exists>t' new. disk w' = Some t' \<and> rows t' = rows t @ new \<and> length new = length rs
               \<and> list_all (\<lambda>r. last_updated r = Text (clock w (reads w))) new"
    if run: "insert_vc_records (PyList rs) w = (Inr v, w')" for v w'
  proof -
    from assms run obtain conn' where
      loop: "insert_loop (clock w (reads w)) rs (Some t) = Inr conn'"
      and w': "disk w' = conn'"
      by (auto simp: insert_vc_records_list split: sum.splits)
    from insert_loop_Inr [OF loop] obtain t' new where
      "conn' = Some t'" "rows t' = rows t @ new" "list_all2 holds new rs"
      "list_all (\<lambda>r. last_updated r = Text (clock w (reads w))) new"
      by blast
    then show ?thesis
      using w' by (auto dest: list_all2_lengthD)
  qed
  ultimately show ?thesis by blast
qed

text \<open>
  Both new rows carry the first reading of the clock and the old row keeps its own; a
  batch that fails at its second element has read the clock once as well.
\<close>

theorem insert_vc_records_one_timestamp_witness:
  "reads (snd (insert_vc_records (PyList [acme, birch]) world_stocked)) = 1
   \<and> reads (snd (insert_vc_records (PyList [acme, PyInt 5]) world_stocked)) = 1
   \<and> map_option (\<lambda>t. map last_updated (rows t))
        (disk (snd (insert_vc_records (PyList [acme, birch]) world_stocked))) =
       Some [Text ''2024-04-30T09:30:00.000001'', Text ''2024-05-01T12:00:00.100000'',
             Text ''2024-05-01T12:00:00.100000'']"
proof -
  have d: "disk world_stocked = Some \<lparr>rows = [old_row], seq = 1\<rparr>"
    by (simp add: world_stocked_def)
  have r: "reads world_stocked = 0"
    by (simp add: world_stocked_def world0_def)
  from insert_vc_records_one_timestamp [OF d, of "[acme, birch]"]
    insert_vc_records_one_timestamp [OF d, of "[acme, PyInt 5]"] r
  have "reads (snd (insert_vc_records (PyList [acme, birch]) world_stocked)) = 1"
    and "reads (snd (insert_vc_records (PyList [acme, PyInt 5]) world_stocked)) = 1"
    by simp_all
  then show ?thesis
    by (simp add: run_stocked acme_row_def birch_row_def old_row_def)
qed

text \<open>
  C9. Whenever \<open>insert_vc_records\<close> ends with an exception, whatever it was given and
  however far the loop had come, the database file holds what it held before the call:
  no row of the batch is persisted.
\<close>

theorem insert_vc_records_all_or_none:
  assumes "fst (insert_vc_records vc_records w) = Inl e"
  shows "disk (snd (insert_vc_records vc_records w)) = disk w"
  using assms
  by (auto simp: insert_vc_records_def utcnow_isoformat_def print_line_def Let_def
           split: sum.splits)

text \<open>A batch whose second element is the number 5: the first record is not kept.\<close>

theorem insert_vc_records_all_or_none_witness:
  "fst (insert_vc_records (PyList [acme, PyInt 5]) world_stocked) = Inl AttributeError
   \<and> disk (snd (insert_vc_records (PyList [acme, PyInt 5]) world_stocked)) =
       Some \<lparr>rows = [old_row], seq = 1\<rparr>"
proof -
  have f: "fst (insert_vc_records (PyList [acme, PyInt 5]) world_stocked) = Inl AttributeError"
    by (simp add: run_broken)
  from insert_vc_records_all_or_none [OF f] f show ?thesis
    by (simp add: world_stocked_def)
qed

lemma same_fields_params:
  assumes "same_fields r1 r2"
  shows "record_params r1 now = record_params r2 now"
proof -
  from assms obtain a b where r: "r1 = PyDict a" "r2 = PyDict b"
    by (cases r1; cases r2) simp_all
  with assms have "\<forall>k \<in> set field_keys. field_of a k = field_of b k"
    by (simp add: list_all_iff field_of_def)
  then show ?thesis
    by (simp add: r record_params_dict field_keys_def)
qed

lemma insert_loop_same_fields:
  "list_all2 same_fields rs1 rs2 \<Longrightarrow> insert_loop now rs1 conn = insert_loop now rs2 conn"
proof (induction arbitrary: conn rule: list_all2_induct)
  case Nil
  show ?case by simp
next
  case (Cons r1 rs1 r2 rs2)
  have "insert_one now r1 conn = insert_one now r2 conn"
    by (simp add: insert_one_def same_fields_params [OF Cons.hyps(1)])
  then show ?case
    using Cons.IH by (simp split: sum.splits)
qed

text \<open>
  C10. Two batches whose records agree, one by one, on the values under the four keys
  Name, Location, Website and Focus (a key absent in one being absent in the other) make
  \<open>insert_vc_records\<close> do the same in every world: the same rows, the same output, the
  same result. Other keys of a record have no effect.
\<close>

theorem insert_vc_records_four_keys:
  assumes "list_all2 same_fields rs1 rs2"
  shows "insert_vc_records (PyList rs1) w = insert_vc_records (PyList rs2) w"
  using insert_loop_same_fields [OF assms] list_all2_lengthD [OF assms]
  by (simp add: insert_vc_records_list split: sum.splits)

text \<open>The founding year of Birch Capital is not one of the four keys: it changes nothing.\<close>

theorem insert_vc_records_four_keys_witness:
  "insert_vc_records (PyList [acme, birch]) world_stocked =
     insert_vc_records (PyList [acme, PyDict [(''Name'', PyStr ''Birch Capital'')]]) world_stocked
   \<and> map_option rows (disk (snd (insert_vc_records
         (PyList [acme, PyDict [(''Name'', PyStr ''Birch Capital'')]]) world_stocked))) =
       Some [old_row, acme_row 2, birch_row 3]"
proof -
  have s: "list_all2 same_fields [acme, birch] [acme, PyDict [(''Name'', PyStr ''Birch Capital'')]]"
    by (simp add: acme_def birch_def field_keys_def)
  have "insert_vc_records (PyList [acme, PyDict [(''Name'', PyStr ''Birch Capital'')]]) world_stocked =
          insert_vc_records (PyList [acme, birch]) world_stocked"
    by (rule insert_vc_records_four_keys [OF s, symmetric])
  then show ?thesis
    by (simp add: run_stocked)
qed

subsection \<open>Insertion, then the query\<close>

text \<open>
  C8, as amended. For every initialized store whose table is as SQLite keeps it, and
  every batch whose insertion ends without an exception, the query that follows ends
  without an exception, returns \<^verbatim>\<open>None\<close>, and prints, after its heading, the rows the
  table held before and then one new row for each record of the batch, in the order of
  the batch. Each new row holds the fields of its record, the new rowids are the numbers
  that follow \<open>seq\<close>, so that all printed rowids ascend, and every new row carries the
  one reading of the clock made by the insertion.
\<close>

theorem insert_then_query_prints:
  assumes "disk w = Some t" and "table_ok t"
    and "insert_vc_records (PyList rs) w = (Inr v, w1)"
  shows "\<exists>new. query_all_vc_records w1 =
           (Inr PyNone,
            w1\<lparr>stdout := stdout w1 @ Line ''Current VC Records:'' # map RowLine (rows t @ new)\<rparr>)
         \<and> list_all2 holds new rs
         \<and> map rid new = [Suc (seq t) ..< Suc (seq t) + length rs]
         \<and> sorted_wrt (<) (map rid (rows t @ new))
         \<and> list_all (\<lambda>r. last_updated r = Text (clock w (reads w))) new"
proof -
  from assms(1,3) obtain conn' where
    loop: "insert_loop (clock w (reads w)) rs (Some t) = Inr conn'"
    and w1: "disk w1 = conn'"
    by (auto simp: insert_vc_records_list split: sum.splits)
  from insert_loop_Inr [OF loop] obtain t' new where
    new: "conn' = Some t'" "rows t' = rows t @ new" "list_all2 holds new rs"
    "list_all (\<lambda>r. last_updated r = Text (clock w (reads w))) new"
    by blast
  from insert_loop_ids [OF loop assms(2)] new(1) have
    ok: "table_ok t'"
    and ids: "map rid (rows t') = map rid (rows t) @ [Suc (seq t) ..< Suc (seq t) + length rs]"
    by auto
  have "map rid new = [Suc (seq t) ..< Suc (seq t) + length rs]"
    using ids new(2) by simp
  moreover have "sorted_wrt (<) (map rid (rows t @ new))"
    using ok new(2) by (simp add: table_ok_def)
  moreover have "query_all_vc_records w1 =
           (Inr PyNone,
            w1\<lparr>stdout := stdout w1 @ Line ''Current VC Records:'' # map RowLine (rows t @ new)\<rparr>)"
    using w1 new(1,2) by (simp add: query_all_vc_records_def fold_print_row print_line_def)
  ultimately show ?thesis
    using new(3,4) by blast
qed

text \<open>The old row, then the two firms with the rowids 2 and 3 and one timestamp.\<close>

theorem insert_then_query_prints_witness:
  "stdout (snd (query_all_vc_records (snd (insert_vc_records (PyList [acme, birch]) world_stocked)))) =
     [Line ''Inserted 2 records into the database.'', Line ''Current VC Records:'',
      RowLine old_row, RowLine (acme_row 2), RowLine (birch_row 3)]
   \<and> holds (acme_row 2) acme \<and> holds (birch_row 3) birch"
proof -
  have d: "disk world_stocked = Some \<lparr>rows = [old_row], seq = 1\<rparr>"
    by (simp add: world_stocked_def)
  have ok: "table_ok \<lparr>rows = [old_row], seq = 1\<rparr>"
    by (simp add: table_ok_def old_row_def)
  from insert_then_query_prints [OF d ok run_stocked] obtain new where
    q: "query_all_vc_records
          (world0\<lparr>reads := 1, disk := Some \<lparr>rows = [old_row, acme_row 2, birch_row 3], seq = 3\<rparr>,
                  stdout := [Line ''Inserted 2 records into the database.'']\<rparr>) =
        (Inr PyNone,
         world0\<lparr>reads := 1, disk := Some \<lparr>rows = [old_row, acme_row 2, birch_row 3], seq = 3\<rparr>,
                stdout := [Line ''Inserted 2 records into the database.'']\<rparr>
           \<lparr>stdout := stdout (world0\<lparr>reads := 1,
                 disk := Some \<lparr>rows = [old_row, acme_row 2, birch_row 3], seq = 3\<rparr>,
                 stdout := [Line ''Inserted 2 records into the database.'']\<rparr>) @
               Line ''Current VC Records:'' #
               map RowLine (rows \<lparr>rows = [old_row], seq = 1\<rparr> @ new)\<rparr>)"
    and h: "list_all2 holds new [acme, birch]"
    by blast
  have "fst (query_all_vc_records (snd (insert_vc_records (PyList [acme, birch]) world_stocked))) =
          Inr PyNone"
    using q by (simp add: run_stocked)
  then have "stdout (snd (query_all_vc_records
                 (snd (insert_vc_records (PyList [acme, birch]) world_stocked)))) =
     [Line ''Inserted 2 records into the database.'', Line ''Current VC Records:'',
      RowLine old_row, RowLine (acme_row 2), RowLine (birch_row 3)]"
    by (simp add: run_stocked query_all_vc_records_def fold_print_row print_line_def)
  moreover have "holds (acme_row 2) acme" and "holds (birch_row 3) birch"
    by (simp_all add: acme_row_def birch_row_def acme_def birch_def field_of_def)
  ultimately show ?thesis
    by simp
qed

text \<open>
  C8 as stated fails: after inserting one record into the empty table, the query has
  returned \<^verbatim>\<open>None\<close> and no sequence of rows; the row is on standard output.
\<close>

theorem query_returns_none_counterexample:
  "fst (query_all_vc_records (snd (insert_vc_records (PyList [acme]) world_ready))) = Inr PyNone
   \<and> fst (query_all_vc_records (snd (insert_vc_records (PyList [acme]) world_ready))) \<noteq>
       Inr (PyList [acme])
   \<and> stdout (snd (query_all_vc_records (snd (insert_vc_records (PyList [acme]) world_ready)))) =
       [Line ''Inserted 1 records into the database.'', Line ''Current VC Records:'',
        RowLine (acme_row 1)]"
  by (simp add: run_defs acme_row_def)

end
